theory Spec2Isabelle
  imports Main
begin

section \<open>JavaScript strings\<close>

text \<open>
  A JavaScript string is a sequence of UTF-16 code units. The model uses \<^typ>\<open>string\<close>:
  a \<^typ>\<open>char\<close> stands for one code unit in the range U+0000 .. U+00FF, and
  \<^term>\<open>length\<close> counts code units, as \<^verbatim>\<open>.length\<close> does.
\<close>

definition code :: "char \<Rightarrow> nat" where
  "code c = of_char c"

text \<open>A character class of a regular expression: a list of inclusive ranges.\<close>

type_synonym charclass = "(char \<times> char) list"

definition in_class :: "charclass \<Rightarrow> char \<Rightarrow> bool" where
  "in_class rs c = list_ex (\<lambda>(lo, hi). code lo \<le> code c \<and> code c \<le> code hi) rs"

text \<open>
  \<^verbatim>\<open>String.prototype.trim\<close> removes white space and line terminators from both
  ends. Among the code units up to U+00FF these are TAB, LF, VT, FF, CR, SPACE and
  NO-BREAK SPACE.
\<close>

definition js_whitespace :: "char \<Rightarrow> bool" where
  "js_whitespace c = (code c \<in> {9, 10, 11, 12, 13, 32, 160})"

definition trim :: "string \<Rightarrow> string" where
  "trim s = rev (dropWhile js_whitespace (rev (dropWhile js_whitespace s)))"

text \<open>
  \<^verbatim>\<open>String.prototype.toLowerCase\<close> on code units up to U+00FF: the letters A-Z and
  the Latin-1 capitals U+00C0 .. U+00DE (U+00D7, the multiplication sign, apart) move up
  by 32; every other code unit is unchanged.
\<close>

definition toLowerCase_char :: "char \<Rightarrow> char" where
  "toLowerCase_char c =
     (let n = code c in
      if (65 \<le> n \<and> n \<le> 90) \<or> (192 \<le> n \<and> n \<le> 222 \<and> n \<noteq> 215)
      then char_of (n + 32) else c)"

definition toLowerCase :: "string \<Rightarrow> string" where
  "toLowerCase s = map toLowerCase_char s"

definition startsWith :: "string \<Rightarrow> string \<Rightarrow> bool" where
  "startsWith p s = (take (length p) s = p)"

definition endsWith :: "string \<Rightarrow> string \<Rightarrow> bool" where
  "endsWith p s = (length p \<le> length s \<and> drop (length s - length p) s = p)"

text \<open>
  The first occurrence of a search string: the text before it and the text after it
  (\<^verbatim>\<open>indexOf\<close> is the length of the first component).
\<close>

fun split_first :: "string \<Rightarrow> string \<Rightarrow> (string \<times> string) option" where
  "split_first p [] = (if p = [] then Some ([], []) else None)"
| "split_first p (c # cs) =
     (if startsWith p (c # cs) then Some ([], drop (length p) (c # cs))
      else case split_first p cs of
             None \<Rightarrow> None
           | Some (pre, post) \<Rightarrow> Some (c # pre, post))"

definition js_includes :: "string \<Rightarrow> string \<Rightarrow> bool" where
  "js_includes p s = (split_first p s \<noteq> None)"

text \<open>
  \<^verbatim>\<open>s.split(c)\<close> for a one-character separator: \<open>n\<close> separators give \<open>n + 1\<close>
  pieces, so the result is never empty and \<^verbatim>\<open>''.split('.')\<close> is \<^verbatim>\<open>['']\<close>.
\<close>

fun js_split :: "char \<Rightarrow> string \<Rightarrow> string list" where
  "js_split sep [] = [[]]"
| "js_split sep (c # cs) =
     (if c = sep then [] # js_split sep cs
      else case js_split sep cs of
             [] \<Rightarrow> [[c]]
           | l # ls \<Rightarrow> (c # l) # ls)"

section \<open>Regular expressions\<close>

text \<open>
  The fragment of the regular expression syntax that the sources use: character classes,
  sequence, and the quantifiers \<^verbatim>\<open>?\<close>, \<^verbatim>\<open>+\<close>, \<^verbatim>\<open>{m,n}\<close> and \<^verbatim>\<open>{m,}\<close>.
  \<^verbatim>\<open>/^r$/.test(s)\<close> holds iff the whole of \<open>s\<close> is in the language of \<open>r\<close>; it is
  decided by derivatives.
\<close>

datatype rx =
    Nul
  | Eps
  | Cls charclass
  | Seq rx rx
  | Alt rx rx
  | Star rx
  | Rep rx nat nat

definition Opt :: "rx \<Rightarrow> rx" where
  "Opt r = Rep r 0 1"

definition Plus :: "rx \<Rightarrow> rx" where
  "Plus r = Seq r (Star r)"

fun nullable :: "rx \<Rightarrow> bool" where
  "nullable Nul = False"
| "nullable Eps = True"
| "nullable (Cls rs) = False"
| "nullable (Seq r s) = (nullable r \<and> nullable s)"
| "nullable (Alt r s) = (nullable r \<or> nullable s)"
| "nullable (Star r) = True"
| "nullable (Rep r lo hi) = (lo \<le> hi \<and> (lo = 0 \<or> nullable r))"

fun deriv :: "char \<Rightarrow> rx \<Rightarrow> rx" where
  "deriv c Nul = Nul"
| "deriv c Eps = Nul"
| "deriv c (Cls rs) = (if in_class rs c then Eps else Nul)"
| "deriv c (Seq r s) =
     (if nullable r then Alt (Seq (deriv c r) s) (deriv c s) else Seq (deriv c r) s)"
| "deriv c (Alt r s) = Alt (deriv c r) (deriv c s)"
| "deriv c (Star r) = Seq (deriv c r) (Star r)"
| "deriv c (Rep r lo hi) =
     (if hi = 0 then Nul else Seq (deriv c r) (Rep r (lo - 1) (hi - 1)))"

text \<open>Dead branches are dropped after each step, which keeps the derivative small.\<close>

fun prune :: "rx \<Rightarrow> rx" where
  "prune (Seq r s) = (let r' = prune r in if r' = Nul then Nul else Seq r' s)"
| "prune (Alt r s) =
     (let r' = prune r; s' = prune s in
      if r' = Nul then s' else if s' = Nul then r' else Alt r' s')"
| "prune r = r"

fun matches :: "rx \<Rightarrow> string \<Rightarrow> bool" where
  "matches r [] = nullable r"
| "matches r (c # cs) = matches (prune (deriv c r)) cs"

text \<open>
  The strings that a regular expression denotes; \<open>matches\<close> is shown below to decide
  membership.
\<close>

definition conc :: "string set \<Rightarrow> string set \<Rightarrow> string set" where
  "conc A B = {xs @ ys | xs ys. xs \<in> A \<and> ys \<in> B}"

primrec lang_pow :: "string set \<Rightarrow> nat \<Rightarrow> string set" where
  "lang_pow A 0 = {[]}"
| "lang_pow A (Suc n) = conc A (lang_pow A n)"

fun lang :: "rx \<Rightarrow> string set" where
  "lang Nul = {}"
| "lang Eps = {[]}"
| "lang (Cls rs) = {[c] | c. in_class rs c}"
| "lang (Seq r s) = conc (lang r) (lang s)"
| "lang (Alt r s) = lang r \<union> lang s"
| "lang (Star r) = (\<Union>n. lang_pow (lang r) n)"
| "lang (Rep r lo hi) = (\<Union>n\<in>{lo..hi}. lang_pow (lang r) n)"

definition left_quot :: "char \<Rightarrow> string set \<Rightarrow> string set" where
  "left_quot c A = {s. c # s \<in> A}"

section \<open>Domain validation (Header)\<close>

datatype verror =
    MissingDomain
  | DomainTooLong
  | InvalidCharacters
  | MissingTLD
  | EmptyLabel
  | LabelTooLong string
  | HyphenPlacement
  | NumericTLD
  | InvalidFormat

text \<open>The message that \<^verbatim>\<open>validateDomain\<close> returns for each error.\<close>

fun message :: "verror \<Rightarrow> string" where
  "message MissingDomain = ''Please enter a domain name.''"
| "message DomainTooLong = ''Domain is too long (maximum 253 characters).''"
| "message InvalidCharacters =
     ''Domain contains invalid characters. Use only letters, numbers, hyphens, and periods.''"
| "message MissingTLD =
     ''Invalid format. A domain must include a TLD (e.g., '' @ [char_of (34::nat)] @ ''.com''
       @ [char_of (34::nat)] @ '').''"
| "message EmptyLabel = ''Invalid format. Found consecutive or trailing periods.''"
| "message (LabelTooLong label) =
     ''A part of the domain ('' @ [char_of (34::nat)] @ label @ [char_of (34::nat)]
       @ '') is too long (maximum 63 characters).''"
| "message HyphenPlacement = ''Domain parts cannot start or end with a hyphen.''"
| "message NumericTLD =
     ''The Top-Level Domain (TLD) cannot be composed entirely of numbers.''"
| "message InvalidFormat =
     ''Invalid domain format. Please use a format like '' @ [char_of (34::nat)]
       @ ''example.com'' @ [char_of (34::nat)] @ ''.''"

text \<open>\<^verbatim>\<open>[a-zA-Z0-9.-]\<close>, the characters that rule 3 admits.\<close>

definition domain_chars :: charclass where
  "domain_chars =
     [(CHR ''a'', CHR ''z''), (CHR ''A'', CHR ''Z''), (CHR ''0'', CHR ''9''),
      (CHR ''.'', CHR ''.''), (CHR ''-'', CHR ''-'')]"

definition alnum :: charclass where
  "alnum = [(CHR ''a'', CHR ''z''), (CHR ''A'', CHR ''Z''), (CHR ''0'', CHR ''9'')]"

definition alnum_hyphen :: charclass where
  "alnum_hyphen =
     [(CHR ''a'', CHR ''z''), (CHR ''A'', CHR ''Z''), (CHR ''0'', CHR ''9''),
      (CHR ''-'', CHR ''-'')]"

definition alpha :: charclass where
  "alpha = [(CHR ''a'', CHR ''z''), (CHR ''A'', CHR ''Z'')]"

definition digit :: charclass where
  "digit = [(CHR ''0'', CHR ''9'')]"

text \<open>
  \<^verbatim>\<open>/^([a-zA-Z0-9]([a-zA-Z0-9-]{0,61}[a-zA-Z0-9])?\.)+[a-zA-Z][a-zA-Z0-9-]{1,}$/\<close>
\<close>

definition domainRegex :: rx where
  "domainRegex =
     Seq (Plus (Seq (Seq (Cls alnum) (Opt (Seq (Rep (Cls alnum_hyphen) 0 61) (Cls alnum))))
                    (Cls [(CHR ''.'', CHR ''.'')])))
         (Seq (Cls alpha) (Plus (Cls alnum_hyphen)))"

text \<open>
  The loop over the labels: each label is checked for its length and then for its
  hyphens before the next label is looked at.
\<close>

fun check_labels :: "string list \<Rightarrow> verror option" where
  "check_labels [] = None"
| "check_labels (label # rest) =
     (if length label > 63 then Some (LabelTooLong label)
      else if startsWith ''-'' label \<or> endsWith ''-'' label then Some HyphenPlacement
      else check_labels rest)"

definition validateDomain :: "string \<Rightarrow> verror option" where
  "validateDomain domain =
     (let trimmedDomain = trim domain in
      if trimmedDomain = [] then Some MissingDomain
      else if length trimmedDomain > 253 then Some DomainTooLong
      else if list_ex (\<lambda>c. \<not> in_class domain_chars c) trimmedDomain
        then Some InvalidCharacters
      else if \<not> js_includes ''.'' trimmedDomain then Some MissingTLD
      else
        let labels = js_split (CHR ''.'') trimmedDomain in
        if list_ex (\<lambda>label. length label = 0) labels then Some EmptyLabel
        else case check_labels labels of
          Some e \<Rightarrow> Some e
        | None \<Rightarrow>
            let tld = last labels in
            if matches (Plus (Cls digit)) tld then Some NumericTLD
            else if \<not> matches domainRegex trimmedDomain then Some InvalidFormat
            else None)"

section \<open>Platform primitives\<close>

text \<open>
  \<^verbatim>\<open>new URL(s)\<close>, \<^verbatim>\<open>window.open(s, ...)\<close>, \<^verbatim>\<open>JSON.parse(s)\<close> and
  \<^verbatim>\<open>localStorage.getItem(k)\<close> belong to the browser, not to this repository. Each is a
  parameter of the function that calls it: a function from the argument to either the
  exception thrown (\<open>Inl\<close>) or the value returned (\<open>Inr\<close>). Of a parsed URL only the
  \<^verbatim>\<open>hostname\<close> is read.
\<close>

datatype exn = TypeError | SyntaxError | SecurityError

record url =
  hostname :: string

type_synonym URL_ctor = "string \<Rightarrow> exn + url"

type_synonym window_open = "string \<Rightarrow> exn + unit"

text \<open>The values of \<^verbatim>\<open>JSON.parse\<close>; of the numbers only the integers are represented.\<close>

datatype json =
    JNull
  | JBool bool
  | JNumber int
  | JString string
  | JArray "json list"
  | JObject "(string \<times> json) list"

type_synonym JSON_parse = "string \<Rightarrow> exn + json"

section \<open>Domain sanitization (Header)\<close>

text \<open>\<^verbatim>\<open>s.replace(/^www\./, '')\<close>\<close>

definition strip_www :: "string \<Rightarrow> string" where
  "strip_www s = (if startsWith ''www.'' s then drop 4 s else s)"

text \<open>\<^verbatim>\<open>s.replace(/^https?:\/\//, '')\<close>\<close>

definition strip_scheme :: "string \<Rightarrow> string" where
  "strip_scheme s =
     (if startsWith ''http://'' s then drop 7 s
      else if startsWith ''https://'' s then drop 8 s
      else s)"

text \<open>\<^verbatim>\<open>[a-z0-9.\-]\<close>, the characters that the final cleanup keeps.\<close>

definition clean_chars :: charclass where
  "clean_chars =
     [(CHR ''a'', CHR ''z''), (CHR ''0'', CHR ''9''), (CHR ''.'', CHR ''.''),
      (CHR ''-'', CHR ''-'')]"

text \<open>The \<^verbatim>\<open>catch\<close> block of \<^verbatim>\<open>sanitizeDomain\<close>.\<close>

definition sanitize_fallback :: "string \<Rightarrow> string" where
  "sanitize_fallback domain =
     (let sanitized = toLowerCase (trim domain);
          sanitized = strip_scheme sanitized;
          sanitized = strip_www sanitized;
          sanitized = (case split_first ''/'' sanitized of
                         Some (pre, post) \<Rightarrow> pre
                       | None \<Rightarrow> sanitized)
      in filter (in_class clean_chars) sanitized)"

text \<open>The argument of \<^verbatim>\<open>new URL\<close>: the input, with a scheme put in front if it has none.\<close>

definition with_scheme :: "string \<Rightarrow> string" where
  "with_scheme domain = (if js_includes ''://'' domain then domain else ''https://'' @ domain)"

text \<open>The \<^verbatim>\<open>try\<close> block of \<^verbatim>\<open>sanitizeDomain\<close>.\<close>

definition sanitize_try :: "URL_ctor \<Rightarrow> string \<Rightarrow> exn + string" where
  "sanitize_try URL domain =
     (case URL (with_scheme domain) of
        Inl e \<Rightarrow> Inl e
      | Inr u \<Rightarrow> Inr (strip_www (hostname u)))"

definition sanitizeDomain :: "URL_ctor \<Rightarrow> string \<Rightarrow> exn + string" where
  "sanitizeDomain URL domain =
     (if domain = [] then Inr []
      else case sanitize_try URL domain of
             Inr r \<Rightarrow> Inr r
           | Inl e \<Rightarrow> Inr (sanitize_fallback domain))"

section \<open>Link generation (ToolCard, Dashboard)\<close>

datatype urlType = Domain | Domain_name

datatype ToolCategory =
    Favorites | Appraisal | Spam | WHOIS | Social_Media | Google | DNS_History
  | Extra_Tools | Trademark | Domain_Generator

text \<open>The \<^verbatim>\<open>Tool\<close> interface, without its icon; \<^verbatim>\<open>urlType\<close> is optional.\<close>

record Tool =
  tool_id :: string
  title :: string
  description :: string
  urlTemplate :: string
  urlType :: "urlType option"
  category :: ToolCategory

text \<open>
  \<^verbatim>\<open>GetSubstitution\<close> of the language standard, for a search by string (no capture
  groups): in the replacement text \<^verbatim>\<open>$$\<close> stands for a dollar sign, \<^verbatim>\<open>$&\<close> for the
  matched text, \<^verbatim>\<open>$`\<close> for the text before the match and \<^verbatim>\<open>$'\<close> for the text after
  it; every other character stands for itself.
\<close>

fun GetSubstitution :: "string \<Rightarrow> string \<Rightarrow> string \<Rightarrow> string \<Rightarrow> string" where
  "GetSubstitution matched pre post [] = []"
| "GetSubstitution matched pre post [c] = [c]"
| "GetSubstitution matched pre post (c # d # rest) =
     (if c = CHR ''$'' \<and> d = CHR ''$'' then CHR ''$'' # GetSubstitution matched pre post rest
      else if c = CHR ''$'' \<and> d = CHR 0x60 then pre @ GetSubstitution matched pre post rest
      else if c = CHR ''$'' \<and> d = CHR ''&'' then matched @ GetSubstitution matched pre post rest
      else if c = CHR ''$'' \<and> d = CHR 0x27 then post @ GetSubstitution matched pre post rest
      else c # GetSubstitution matched pre post (d # rest))"

text \<open>\<^verbatim>\<open>str.replace(pattern, replacement)\<close> with a string pattern: the first occurrence only.\<close>

definition js_replace :: "string \<Rightarrow> string \<Rightarrow> string \<Rightarrow> string" where
  "js_replace str pattern replacement =
     (case split_first pattern str of
        None \<Rightarrow> str
      | Some (pre, post) \<Rightarrow> pre @ GetSubstitution pattern pre post replacement @ post)"

text \<open>\<^verbatim>\<open>fullDomain.split('.')[0] || fullDomain\<close> for \<^verbatim>\<open>domain_name\<close>.\<close>

definition getDomainPart :: "string \<Rightarrow> urlType option \<Rightarrow> string" where
  "getDomainPart fullDomain type =
     (if type = Some Domain_name then
        (case js_split (CHR ''.'') fullDomain of
           [] \<Rightarrow> fullDomain
         | first # rest \<Rightarrow> if first = [] then fullDomain else first)
      else fullDomain)"

text \<open>The URL string that the effect of \<^verbatim>\<open>ToolCard\<close> builds.\<close>

definition card_url :: "Tool \<Rightarrow> string \<Rightarrow> string" where
  "card_url tool domain =
     (let domainPart = getDomainPart domain (urlType tool) in
      js_replace (js_replace (urlTemplate tool) ''{{DOMAIN}}'' domain)
        ''{{DOMAIN_NAME}}'' domainPart)"

datatype card_status = idle | loading | error

record card =
  finalUrl :: string
  status :: card_status

text \<open>
  The effect of \<^verbatim>\<open>ToolCard\<close>, run for every tool and domain: the \<^verbatim>\<open>try\<close> block
  (\<open>generate_try\<close>) and the \<^verbatim>\<open>catch\<close> that turns any exception into the error state.
\<close>

definition generate_try :: "URL_ctor \<Rightarrow> Tool \<Rightarrow> string \<Rightarrow> exn + string" where
  "generate_try URL tool domain =
     (let u = card_url tool domain in
      case URL u of Inl e \<Rightarrow> Inl e | Inr parsed \<Rightarrow> Inr u)"

definition ToolCard_effect :: "URL_ctor \<Rightarrow> Tool \<Rightarrow> string \<Rightarrow> card" where
  "ToolCard_effect URL tool domain =
     (case generate_try URL tool domain of
        Inr u \<Rightarrow> \<lparr>finalUrl = u, status = idle\<rparr>
      | Inl e \<Rightarrow> \<lparr>finalUrl = ''#'', status = error\<rparr>)"

text \<open>The URL string that \<^verbatim>\<open>handleOpenSelected\<close> builds for one tool.\<close>

definition batch_url :: "Tool \<Rightarrow> string \<Rightarrow> string" where
  "batch_url tool domain =
     (let domainPart =
            (if urlType tool = Some Domain_name then
               (case js_split (CHR ''.'') domain of
                  [] \<Rightarrow> domain
                | first # rest \<Rightarrow> if first = [] then domain else first)
             else domain)
      in js_replace (js_replace (urlTemplate tool) ''{{DOMAIN}}'' domain)
           ''{{DOMAIN_NAME}}'' domainPart)"

text \<open>
  What \<^verbatim>\<open>handleOpenSelected\<close> does, in call order: the URLs for which
  \<^verbatim>\<open>window.open\<close> returned, and the titles of the tools whose failure was logged.
\<close>

record batch =
  opened :: "string list"
  logged :: "string list"

text \<open>One round of the \<^verbatim>\<open>forEach\<close>: an id that is not in the catalog is skipped.\<close>

definition open_selected_step ::
  "window_open \<Rightarrow> Tool list \<Rightarrow> string \<Rightarrow> batch \<Rightarrow> string \<Rightarrow> batch" where
  "open_selected_step window_open TOOLS domain b toolId =
     (case find (\<lambda>t. tool_id t = toolId) TOOLS of
        None \<Rightarrow> b
      | Some tool \<Rightarrow>
          (let u = batch_url tool domain in
           case window_open u of
             Inr r \<Rightarrow> b\<lparr>opened := opened b @ [u]\<rparr>
           | Inl e \<Rightarrow> b\<lparr>logged := logged b @ [title tool]\<rparr>))"

definition handleOpenSelected ::
  "window_open \<Rightarrow> Tool list \<Rightarrow> string \<Rightarrow> string list \<Rightarrow> batch" where
  "handleOpenSelected window_open TOOLS domain selectedTools =
     foldl (open_selected_step window_open TOOLS domain) \<lparr>opened = [], logged = []\<rparr>
       selectedTools"

section \<open>Loading the favorites (App)\<close>

text \<open>
  The effect that loads the favorites: \<open>stored\<close> is the outcome of
  \<^verbatim>\<open>localStorage.getItem('domainToolFavorites')\<close>, \<open>favorites\<close> the state before the
  effect (the empty array at startup). The result is the state after it; at run time this
  is whatever value \<^verbatim>\<open>JSON.parse\<close> returned.
\<close>

definition load_favorites :: "JSON_parse \<Rightarrow> exn + string option \<Rightarrow> json \<Rightarrow> json" where
  "load_favorites parse stored favorites =
     (case stored of
        Inl e \<Rightarrow> JArray []
      | Inr None \<Rightarrow> favorites
      | Inr (Some storedFavorites) \<Rightarrow>
          if storedFavorites = [] then favorites
          else (case parse storedFavorites of
                  Inr v \<Rightarrow> v
                | Inl e \<Rightarrow> JArray []))"

section \<open>Reference results of the platform primitives\<close>

text \<open>
  The results of the browser's primitives at the inputs of the examples below, as the URL
  standard and the language standard give them: a scheme and a host in upper case are
  lower-cased, a port above 65535 and a space in the host are rejected, so is a host that
  ends in a number without being an IPv4 address (five numeric parts), and a string with
  no scheme is not an absolute URL (but it is a relative one, which \<^verbatim>\<open>window.open\<close>
  resolves against the page). Inputs that are not listed are not used.
\<close>

definition sample_URL :: URL_ctor where
  "sample_URL s =
     (if s = ''https://www.example.com'' then Inr \<lparr>hostname = ''www.example.com''\<rparr>
      else if s = ''https://www.www.example.com''
        then Inr \<lparr>hostname = ''www.www.example.com''\<rparr>
      else if s = ''https://WWW.Example.com/path?x=1''
        then Inr \<lparr>hostname = ''www.example.com''\<rparr>
      else if s = ''https://x.test/sub'' then Inr \<lparr>hostname = ''x.test''\<rparr>
      else if s = ''https://who.is/whois/example.com'' then Inr \<lparr>hostname = ''who.is''\<rparr>
      else if s = ''http://www.example.com:99999/p'' then Inl TypeError
      else if s = ''https://exa mple.com'' then Inl TypeError
      else if s = ''https://1.2.3.4 .5'' then Inl TypeError
      else if s = ''https://1.2.3.4.5'' then Inl TypeError
      else if s = ''example.org/example.com'' then Inl TypeError
      else Inl TypeError)"

definition sample_window_open :: window_open where
  "sample_window_open s =
     (if s = ''https://who.is/whois/example.com'' then Inr ()
      else if s = ''example.org/example.com'' then Inr ()
      else Inl SyntaxError)"

definition sample_JSON_parse :: JSON_parse where
  "sample_JSON_parse s =
     (if s = ''[]'' then Inr (JArray [])
      else if s = ''{}'' then Inr (JObject [])
      else if s = ''not json'' then Inl SyntaxError
      else Inl SyntaxError)"

section \<open>The substitution as the specification words it\<close>




section \<open>Example tools\<close>

text \<open>
  The catalog (\<^verbatim>\<open>TOOLS\<close>) is a parameter. Two descriptors for the examples: one with an
  absolute template, and one whose template has no scheme, so that what it generates is
  not an absolute URL.
\<close>

definition whois_tool :: Tool where
  "whois_tool =
     \<lparr>tool_id = ''whois'', title = ''Who.is'', description = ''WHOIS lookup'',
      urlTemplate = ''https://who.is/whois/{{DOMAIN}}'', urlType = Some Domain,
      category = WHOIS\<rparr>"

definition relative_tool :: Tool where
  "relative_tool =
     \<lparr>tool_id = ''relative'', title = ''Relative'', description = ''template without a scheme'',
      urlTemplate = ''example.org/{{DOMAIN}}'', urlType = Some Domain,
      category = Extra_Tools\<rparr>"

section \<open>Auxiliary facts\<close>

lemma Nil_in_conc: "[] \<in> conc A B \<longleftrightarrow> [] \<in> A \<and> [] \<in> B"
  by (auto simp: conc_def)

lemma Nil_in_lang_pow: "[] \<in> lang_pow A n \<longleftrightarrow> n = 0 \<or> [] \<in> A"
  by (induction n) (auto simp: Nil_in_conc)

lemma nullable_lang: "nullable r \<longleftrightarrow> [] \<in> lang r"
  by (induction r) (auto simp: Nil_in_conc Nil_in_lang_pow)

lemma left_quot_conc:
  "left_quot c (conc A B) =
     conc (left_quot c A) B \<union> (if [] \<in> A then left_quot c B else {})"
  unfolding left_quot_def conc_def
  by (auto simp: Cons_eq_append_conv)

lemma conc_mono: "B \<subseteq> C \<Longrightarrow> conc A B \<subseteq> conc A C"
  by (auto simp: conc_def)

lemma lang_pow_mono_Nil: "[] \<in> A \<Longrightarrow> lang_pow A n \<subseteq> lang_pow A (Suc n)"
proof (induction n)
  case 0
  then show ?case by (auto simp: conc_def)
next
  case (Suc n)
  then show ?case by (simp add: conc_mono)
qed

lemma left_quot_pow:
  "left_quot c (lang_pow A (Suc n)) = conc (left_quot c A) (lang_pow A n)"
proof (induction n)
  case 0
  show ?case by (auto simp: left_quot_def conc_def)
next
  case (Suc n)
  have "left_quot c (lang_pow A (Suc (Suc n)))
      = conc (left_quot c A) (lang_pow A (Suc n))
          \<union> (if [] \<in> A then left_quot c (lang_pow A (Suc n)) else {})"
    by (simp add: left_quot_conc)
  moreover have "left_quot c (lang_pow A (Suc n)) \<subseteq> conc (left_quot c A) (lang_pow A (Suc n))"
    if "[] \<in> A"
    using Suc.IH conc_mono [OF lang_pow_mono_Nil [OF that]] by blast
  ultimately show ?case by auto
qed

lemma left_quot_Union: "left_quot c (\<Union>i\<in>I. F i) = (\<Union>i\<in>I. left_quot c (F i))"
  by (auto simp: left_quot_def)

lemma conc_Union: "conc A (\<Union>i\<in>I. F i) = (\<Union>i\<in>I. conc A (F i))"
  by (auto simp: conc_def)

lemma left_quot_star:
  "left_quot c (\<Union>n. lang_pow A n) = conc (left_quot c A) (\<Union>n. lang_pow A n)"
proof -
  have "left_quot c (\<Union>n. lang_pow A n) = (\<Union>n. left_quot c (lang_pow A n))"
    by (rule left_quot_Union)
  also have "\<dots> = (\<Union>n. left_quot c (lang_pow A (Suc n)))"
  proof (rule set_eqI, rule iffI)
    fix s assume "s \<in> (\<Union>n. left_quot c (lang_pow A n))"
    then obtain n where n: "s \<in> left_quot c (lang_pow A n)" by blast
    then have "n \<noteq> 0" by (cases n) (auto simp: left_quot_def)
    then obtain m where "n = Suc m" by (cases n) auto
    with n show "s \<in> (\<Union>n. left_quot c (lang_pow A (Suc n)))" by blast
  next
    fix s assume "s \<in> (\<Union>n. left_quot c (lang_pow A (Suc n)))"
    then show "s \<in> (\<Union>n. left_quot c (lang_pow A n))" by blast
  qed
  also have "\<dots> = conc (left_quot c A) (\<Union>n. lang_pow A n)"
    by (simp only: left_quot_pow conc_Union)
  finally show ?thesis .
qed

lemma left_quot_rep:
  "left_quot c (\<Union>n\<in>{lo..hi}. lang_pow A n) =
     (if hi = 0 then {} else conc (left_quot c A) (\<Union>n\<in>{lo - 1..hi - 1}. lang_pow A n))"
proof (cases "hi = 0")
  case True
  then show ?thesis by (auto simp: left_quot_def)
next
  case False
  have "left_quot c (\<Union>n\<in>{lo..hi}. lang_pow A n)
      = (\<Union>n\<in>{lo..hi}. left_quot c (lang_pow A n))"
    by (rule left_quot_Union)
  also have "\<dots> = (\<Union>m\<in>{lo - 1..hi - 1}. left_quot c (lang_pow A (Suc m)))"
  proof (rule set_eqI, rule iffI)
    fix s assume "s \<in> (\<Union>n\<in>{lo..hi}. left_quot c (lang_pow A n))"
    then obtain n where n: "lo \<le> n" "n \<le> hi" "s \<in> left_quot c (lang_pow A n)" by auto
    then have "n \<noteq> 0" by (cases n) (auto simp: left_quot_def)
    then obtain m where m: "n = Suc m" by (cases n) auto
    with n have "lo - 1 \<le> m" "m \<le> hi - 1" by arith+
    with n m show "s \<in> (\<Union>m\<in>{lo - 1..hi - 1}. left_quot c (lang_pow A (Suc m)))" by auto
  next
    fix s assume "s \<in> (\<Union>m\<in>{lo - 1..hi - 1}. left_quot c (lang_pow A (Suc m)))"
    then obtain m where m: "lo - 1 \<le> m" "m \<le> hi - 1" "s \<in> left_quot c (lang_pow A (Suc m))"
      by auto
    with False have "lo \<le> Suc m" "Suc m \<le> hi" by arith+
    with m show "s \<in> (\<Union>n\<in>{lo..hi}. left_quot c (lang_pow A n))"
      by (meson UN_I atLeastAtMost_iff)
  qed
  also have "\<dots> = conc (left_quot c A) (\<Union>n\<in>{lo - 1..hi - 1}. lang_pow A n)"
    by (simp only: left_quot_pow conc_Union)
  finally show ?thesis using False by simp
qed

lemma lang_deriv: "lang (deriv c r) = left_quot c (lang r)"
proof (induction r)
  case (Seq r1 r2)
  then show ?case by (simp add: left_quot_conc nullable_lang)
next
  case (Star r)
  then show ?case by (simp add: left_quot_star)
next
  case (Rep r lo hi)
  then show ?case by (simp add: left_quot_rep)
qed (auto simp: left_quot_def conc_def)

lemma conc_empty: "conc {} B = {}"
  by (simp add: conc_def)

lemma lang_prune: "lang (prune r) = lang r"
  by (induction r) (auto simp: Let_def conc_empty)

text \<open>The matcher decides membership in the language of the expression.\<close>

lemma matches_lang: "matches r s \<longleftrightarrow> s \<in> lang r"
  by (induction s arbitrary: r) (simp_all add: nullable_lang lang_prune lang_deriv left_quot_def)

lemma matches_Nul: "matches Nul s = False"
  by (induction s) auto

lemma matches_Eps_Star_Cls:
  "matches (Seq Eps (Star (Cls cs))) s = list_all (in_class cs) s"
  by (induction s) (auto simp: Let_def matches_Nul)

text \<open>\<^verbatim>\<open>/^[c]+$/\<close> accepts the non-empty strings over the class.\<close>

lemma matches_Plus_Cls:
  "matches (Plus (Cls cs)) s = (s \<noteq> [] \<and> list_all (in_class cs) s)"
  by (cases s) (auto simp: Plus_def Let_def matches_Nul matches_Eps_Star_Cls)

lemma split_first_single:
  "(split_first [c] s = None) = (c \<notin> set s)"
  by (induction s) (auto simp: startsWith_def split: option.splits)

lemma js_includes_single: "js_includes [c] s = (c \<in> set s)"
  by (simp add: js_includes_def split_first_single)

lemma js_split_nonempty: "js_split sep s \<noteq> []"
  by (induction s) (auto split: list.splits)

lemma check_labels_None:
  "check_labels ls = None \<Longrightarrow>
     \<forall>l\<in>set ls. length l \<le> 63 \<and> \<not> startsWith ''-'' l \<and> \<not> endsWith ''-'' l"
  by (induction ls) (auto split: if_splits)

text \<open>The loop returns the error of the first label that breaks one of its two rules.\<close>

lemma check_labels_find:
  "check_labels ls =
     (case find (\<lambda>l. 63 < length l \<or> startsWith ''-'' l \<or> endsWith ''-'' l) ls of
        None \<Rightarrow> None
      | Some l \<Rightarrow> Some (if 63 < length l then LabelTooLong l else HyphenPlacement))"
  by (induction ls) auto



















text \<open>The examples of the specification for \<^verbatim>\<open>validate\<close>.\<close>

lemma validateDomain_examples:
  "validateDomain ''example.com'' = None"
  "validateDomain ''example'' = Some MissingTLD"
  "validateDomain ''-bad.com'' = Some HyphenPlacement"
  "validateDomain ''example.123'' = Some NumericTLD"
  by code_simp+

text \<open>
  The URLs that the batch loop opens: for each selected id in turn, the URL of the tool
  with that id if \<^verbatim>\<open>window.open\<close> returns for it. Whether the URL constructor would
  accept the URL plays no part.
\<close>

lemma open_selected_step_opened:
  "opened (open_selected_step W TOOLS d b i) =
     opened b @ (case find (\<lambda>t. tool_id t = i) TOOLS of
                   None \<Rightarrow> []
                 | Some tool \<Rightarrow>
                     (case W (batch_url tool d) of
                        Inr r \<Rightarrow> [batch_url tool d]
                      | Inl e \<Rightarrow> []))"
  by (simp add: open_selected_step_def Let_def split: option.splits sum.splits)

lemma foldl_open_selected_opened:
  "opened (foldl (open_selected_step W TOOLS d) b sel) =
     opened b @ concat (map (\<lambda>i. case find (\<lambda>t. tool_id t = i) TOOLS of
                                   None \<Rightarrow> []
                                 | Some tool \<Rightarrow>
                                     (case W (batch_url tool d) of
                                        Inr r \<Rightarrow> [batch_url tool d]
                                      | Inl e \<Rightarrow> [])) sel)"
  by (induction sel arbitrary: b) (simp_all add: open_selected_step_opened)

lemma handleOpenSelected_opened:
  "opened (handleOpenSelected W TOOLS d sel) =
     concat (map (\<lambda>i. case find (\<lambda>t. tool_id t = i) TOOLS of
                        None \<Rightarrow> []
                      | Some tool \<Rightarrow>
                          (case W (batch_url tool d) of
                             Inr r \<Rightarrow> [batch_url tool d]
                           | Inl e \<Rightarrow> [])) sel)"
  by (simp add: handleOpenSelected_def foldl_open_selected_opened)

text \<open>
  Loading the favorites: an absent entry leaves the state as it is, a failure of the
  storage or of the parser gives the empty array, and every value that parses is taken
  as it is.
\<close>

lemma load_favorites_cases:
  "load_favorites parse (Inr None) favorites = favorites"
  "load_favorites parse (Inl x) favorites = JArray []"
  "parse s = Inl e \<Longrightarrow> load_favorites parse (Inr (Some s)) (JArray []) = JArray []"
  "s \<noteq> [] \<Longrightarrow> parse s = Inr v \<Longrightarrow> load_favorites parse (Inr (Some s)) favorites = v"
  by (simp_all add: load_favorites_def)

section \<open>Accepted domains\<close>

text \<open>
  C1, as stated: if \<open>validateDomain d\<close> reports no error then \<open>d\<close> itself consists only of
  \<^verbatim>\<open>[a-zA-Z0-9.-]\<close>. It fails: the checks are made on \<^verbatim>\<open>domain.trim()\<close>, so a
  domain with a leading space is accepted although the space is not in the class.
\<close>

theorem validateDomain_untrimmed_counterexample:
  "validateDomain '' example.com'' = None
     \<and> \<not> list_all (in_class domain_chars) '' example.com''"
  by code_simp

text \<open>
  C1, amended: if \<open>validateDomain d\<close> reports no error then the trimmed domain consists
  only of characters \<^verbatim>\<open>[a-zA-Z0-9.-]\<close>, contains a \<^verbatim>\<open>.\<close>, has no empty label, no
  label longer than 63 characters, no label that starts or ends with \<^verbatim>\<open>-\<close>, is at most
  253 characters long, and its last label is not made of digits only.
\<close>

theorem validateDomain_accepts:
  assumes "validateDomain d = None"
  shows "(\<forall>c\<in>set (trim d). in_class domain_chars c)
       \<and> CHR ''.'' \<in> set (trim d)
       \<and> (\<forall>l\<in>set (js_split (CHR ''.'') (trim d)).
            l \<noteq> [] \<and> length l \<le> 63 \<and> \<not> startsWith ''-'' l \<and> \<not> endsWith ''-'' l)
       \<and> length (trim d) \<le> 253
       \<and> \<not> list_all (in_class digit) (last (js_split (CHR ''.'') (trim d)))"
proof -
  let ?t = "trim d"
  let ?labels = "js_split (CHR ''.'') ?t"
  from assms have rules:
    "?t \<noteq> []" "length ?t \<le> 253" "\<forall>c\<in>set ?t. in_class domain_chars c"
    "CHR ''.'' \<in> set ?t" "[] \<notin> set ?labels" "check_labels ?labels = None"
    "\<not> matches (Plus (Cls digit)) (last ?labels)"
    by (simp_all add: validateDomain_def Let_def js_includes_single list_ex_iff
          split: if_splits option.splits)
  have "last ?labels \<in> set ?labels"
    by (simp add: js_split_nonempty)
  with rules(5) have "last ?labels \<noteq> []"
    by metis
  with rules(7) have tld: "\<not> list_all (in_class digit) (last ?labels)"
    by (simp add: matches_Plus_Cls)
  from check_labels_None [OF rules(6)] rules(5)
  have "\<forall>l\<in>set ?labels.
          l \<noteq> [] \<and> length l \<le> 63 \<and> \<not> startsWith ''-'' l \<and> \<not> endsWith ''-'' l"
    by metis
  with rules tld show ?thesis
    by simp
qed

theorem validateDomain_accepts_witness:
  "validateDomain ''example.com'' = None
     \<and> list_all (in_class domain_chars) (trim ''example.com'')
     \<and> CHR ''.'' \<in> set (trim ''example.com'')
     \<and> list_all (\<lambda>l. l \<noteq> [] \<and> length l \<le> 63 \<and> \<not> startsWith ''-'' l \<and> \<not> endsWith ''-'' l)
          (js_split (CHR ''.'') (trim ''example.com''))
     \<and> length (trim ''example.com'') \<le> 253
     \<and> \<not> list_all (in_class digit) (last (js_split (CHR ''.'') (trim ''example.com'')))"
proof -
  have ok: "validateDomain ''example.com'' = None"
    by code_simp
  from ok validateDomain_accepts [OF ok] show ?thesis
    unfolding list_all_iff by (intro conjI) (elim conjE, assumption)+
qed

section \<open>Order of the validation rules\<close>

text \<open>
  C2, as stated: whenever one label is longer than 63 characters and another starts or ends
  with \<^verbatim>\<open>-\<close>, the error is the one for the long label, whichever label comes first. It
  fails: the loop applies both rules to a label before it moves to the next one. In
  \<^verbatim>\<open>-a.bbb...b.com\<close> (64 times \<^verbatim>\<open>b\<close>) the first label breaks the hyphen rule and
  that error is returned, although the second label is too long.
\<close>

theorem validateDomain_rule_order_counterexample:
  "js_split (CHR ''.'') (trim (''-a.'' @ replicate 64 (CHR ''b'') @ ''.com''))
       = [''-a'', replicate 64 (CHR ''b''), ''com'']
     \<and> 63 < length (replicate 64 (CHR ''b''))
     \<and> startsWith ''-'' ''-a''
     \<and> validateDomain (''-a.'' @ replicate 64 (CHR ''b'') @ ''.com'') = Some HyphenPlacement"
  by code_simp

text \<open>
  C2, amended: \<open>validateDomain\<close> returns the error of the first failing check in this
  order: rules 1 to 5 on the trimmed string; then the labels from left to right, where
  the first label that is longer than 63 characters or starts or ends with \<^verbatim>\<open>-\<close>
  decides (the error for a long label if it is longer than 63 characters, the hyphen
  error otherwise); then rule 8 on the last label and rule 9 on the whole string.
\<close>

theorem validateDomain_rule_order:
  "validateDomain d =
     (let t = trim d; labels = js_split (CHR ''.'') t in
      if t = [] then Some MissingDomain
      else if 253 < length t then Some DomainTooLong
      else if \<exists>c\<in>set t. \<not> in_class domain_chars c then Some InvalidCharacters
      else if CHR ''.'' \<notin> set t then Some MissingTLD
      else if [] \<in> set labels then Some EmptyLabel
      else case find (\<lambda>l. 63 < length l \<or> startsWith ''-'' l \<or> endsWith ''-'' l) labels of
             Some l \<Rightarrow> Some (if 63 < length l then LabelTooLong l else HyphenPlacement)
           | None \<Rightarrow>
               if list_all (in_class digit) (last labels) then Some NumericTLD
               else if \<not> matches domainRegex t then Some InvalidFormat
               else None)"
proof -
  let ?t = "trim d"
  let ?labels = "js_split (CHR ''.'') ?t"
  have tld: "[] \<notin> set ?labels \<Longrightarrow>
      matches (Plus (Cls digit)) (last ?labels) = list_all (in_class digit) (last ?labels)"
    using last_in_set [OF js_split_nonempty, of "CHR ''.''" ?t]
    by (auto simp: matches_Plus_Cls)
  have empty: "list_ex (\<lambda>label. length label = 0) ?labels = ([] \<in> set ?labels)"
    by (auto simp: list_ex_iff)
  show ?thesis
  proof (cases "[] \<in> set ?labels")
    case True
    then show ?thesis
      unfolding validateDomain_def Let_def check_labels_find js_includes_single empty
      by (simp add: list_ex_iff)
  next
    case False
    with tld have "matches (Plus (Cls digit)) (last ?labels)
        = list_all (in_class digit) (last ?labels)"
      by simp
    then show ?thesis
      unfolding validateDomain_def Let_def check_labels_find js_includes_single empty
      by (simp add: list_ex_iff split: option.splits)
  qed
qed

text \<open>With the long label first, the same two labels give the error for the long label.\<close>

theorem validateDomain_rule_order_witness:
  "validateDomain (replicate 64 (CHR ''b'') @ ''.-a.com'')
     = Some (LabelTooLong (replicate 64 (CHR ''b'')))"
  by (subst validateDomain_rule_order) code_simp

section \<open>Template substitution\<close>



text \<open>
  C9: the tool card and the batch loop build the same URL string for every tool and every
  domain.
\<close>

theorem card_url_eq_batch_url: "card_url tool domain = batch_url tool domain"
  by (simp add: card_url_def batch_url_def getDomainPart_def)

section \<open>Generation failures\<close>

text \<open>
  C5: for every tool and domain for which the URL constructor rejects the substituted
  template, the exception stays inside the effect of that tool's card: the \<^verbatim>\<open>try\<close>
  block ends with it, and the card ends in the error state with \<^verbatim>\<open>#\<close> as its URL.
\<close>

theorem ToolCard_effect_error:
  "URL (card_url tool domain) = Inl e \<Longrightarrow>
     generate_try URL tool domain = Inl e
     \<and> ToolCard_effect URL tool domain = \<lparr>finalUrl = ''#'', status = error\<rparr>"
  by (simp add: ToolCard_effect_def generate_try_def)

theorem ToolCard_effect_error_witness:
  "sample_URL (card_url relative_tool ''example.com'') = Inl TypeError
   \<and> generate_try sample_URL relative_tool ''example.com'' = Inl TypeError
   \<and> ToolCard_effect sample_URL relative_tool ''example.com''
       = \<lparr>finalUrl = ''#'', status = error\<rparr>"
proof -
  have a: "sample_URL (card_url relative_tool ''example.com'') = Inl TypeError"
    by code_simp
  from a ToolCard_effect_error [of sample_URL relative_tool "''example.com''" TypeError]
  show ?thesis by simp
qed

text \<open>
  C4, where the code departs from it: only the URLs that were generated successfully are
  to be opened. The batch loop builds the URL of each selected tool and hands it to
  \<^verbatim>\<open>window.open\<close> without the check that the tool card makes. For a template without a
  scheme the card reports the error state, and the batch loop opens the URL all the same.
\<close>

theorem handleOpenSelected_opens_failed_tool:
  "ToolCard_effect sample_URL whois_tool ''example.com''
       = \<lparr>finalUrl = ''https://who.is/whois/example.com'', status = idle\<rparr>
   \<and> ToolCard_effect sample_URL relative_tool ''example.com''
       = \<lparr>finalUrl = ''#'', status = error\<rparr>
   \<and> handleOpenSelected sample_window_open [whois_tool, relative_tool] ''example.com''
         [''whois'', ''relative'']
       = \<lparr>opened = [''https://who.is/whois/example.com'', ''example.org/example.com''],
          logged = []\<rparr>"
  by code_simp

section \<open>Sanitization\<close>




text \<open>
  C7, as stated: for every input with a scheme, a leading \<^verbatim>\<open>www.\<close> or a path the result
  is the bare host in lower case without the \<^verbatim>\<open>www.\<close> label. It fails where the URL
  constructor rejects the input: the manual normalization knows nothing of ports, and for
  \<^verbatim>\<open>http://www.example.com:99999/p\<close>, whose host is \<^verbatim>\<open>www.example.com\<close>, it glues the
  digits of the port to the host.
\<close>

theorem sanitizeDomain_port_counterexample:
  "sanitizeDomain sample_URL ''http://www.example.com:99999/p'' = Inr ''example.com99999''"
  by code_simp

text \<open>
  C7, amended: for every non-empty input for which the URL constructor accepts the input
  (with \<^verbatim>\<open>https://\<close> in front if it has no \<^verbatim>\<open>://\<close>), the result is the hostname that
  the constructor reports with one leading \<^verbatim>\<open>www.\<close> removed. In particular, as the
  constructor reports \<^verbatim>\<open>www.example.com\<close> for \<^verbatim>\<open>https://WWW.Example.com/path?x=1\<close>, the
  result for that input is \<^verbatim>\<open>example.com\<close>.
\<close>

theorem sanitizeDomain_parsed_host:
  "(x \<noteq> [] \<and> URL (with_scheme x) = Inr u \<longrightarrow>
      sanitizeDomain URL x = Inr (strip_www (hostname u)))
   \<and> (URL ''https://WWW.Example.com/path?x=1'' = Inr \<lparr>hostname = ''www.example.com''\<rparr> \<longrightarrow>
        sanitizeDomain URL ''https://WWW.Example.com/path?x=1'' = Inr ''example.com'')"
  by (simp add: sanitizeDomain_def sanitize_try_def with_scheme_def js_includes_def
        startsWith_def strip_www_def)

theorem sanitizeDomain_parsed_host_witness:
  "''https://WWW.Example.com/path?x=1'' \<noteq> []
   \<and> sample_URL (with_scheme ''https://WWW.Example.com/path?x=1'')
       = Inr \<lparr>hostname = ''www.example.com''\<rparr>
   \<and> sample_URL ''https://WWW.Example.com/path?x=1'' = Inr \<lparr>hostname = ''www.example.com''\<rparr>
   \<and> sanitizeDomain sample_URL ''https://WWW.Example.com/path?x=1'' = Inr ''example.com''"
proof -
  have a: "sample_URL ''https://WWW.Example.com/path?x=1''
      = Inr \<lparr>hostname = ''www.example.com''\<rparr>"
    by (simp add: sample_URL_def)
  have b: "with_scheme ''https://WWW.Example.com/path?x=1''
      = ''https://WWW.Example.com/path?x=1''"
    by code_simp
  from a b
    sanitizeDomain_parsed_host
      [of "''https://WWW.Example.com/path?x=1''" sample_URL
          "\<lparr>hostname = ''www.example.com''\<rparr>"]
  show ?thesis by (simp add: strip_www_def startsWith_def)
qed

text \<open>
  C8: \<open>sanitizeDomain\<close> returns a string for every input and never ends with an exception;
  for the empty input it returns the empty string; and when the URL constructor throws on
  the input with its scheme, the result is the manual normalization of the input.
\<close>

theorem sanitizeDomain_total:
  "(\<exists>s. sanitizeDomain URL x = Inr s)
   \<and> sanitizeDomain URL [] = Inr []
   \<and> (x \<noteq> [] \<and> URL (with_scheme x) = Inl e \<longrightarrow>
        sanitizeDomain URL x = Inr (sanitize_fallback x))"
  by (auto simp: sanitizeDomain_def sanitize_try_def split: sum.splits)

theorem sanitizeDomain_total_witness:
  "''https://exa mple.com'' \<noteq> []
   \<and> sample_URL (with_scheme ''https://exa mple.com'') = Inl TypeError
   \<and> sanitizeDomain sample_URL ''https://exa mple.com'' = Inr ''example.com''"
proof -
  have a: "sample_URL (with_scheme ''https://exa mple.com'') = Inl TypeError"
    by code_simp
  have b: "sanitize_fallback ''https://exa mple.com'' = ''example.com''"
    by code_simp
  from a b sanitizeDomain_total [of sample_URL "''https://exa mple.com''" TypeError]
  show ?thesis by simp
qed

section \<open>Stored favorites\<close>

text \<open>
  C10, where the code departs from it: a stored value that is not a list of tool ids is
  to give the empty list of favorites. A stored \<^verbatim>\<open>{}\<close> is valid JSON, so nothing is
  thrown, and the object itself becomes the state.
\<close>

theorem load_favorites_not_a_list:
  "load_favorites sample_JSON_parse (Inr (Some ''{}'')) (JArray []) = JObject []"
  by code_simp

end
